theory Spec2Isabelle
  imports Complex_Main
begin

section \<open>Data model (backend/src/types/index.ts)\<close>

text \<open>
  JavaScript numbers are modelled as real numbers, strings as \<open>string\<close>, arrays as
  lists. A \<open>Date\<close> is the number of milliseconds it holds. The question catalog
  (\<open>questionsData\<close>) and the station catalog (\<open>stationsData\<close>) are data files that
  the services import; every function below takes them as a parameter.
\<close>

datatype QuestionCategory = Housing | Transport | Commercial | Culture | Price | Priority

record QuestionOption =
  opt_id :: string
  opt_text :: string
  opt_value :: real
  opt_tags :: "string list"

record Question =
  q_id :: string
  q_category :: QuestionCategory
  q_text :: string
  q_options :: "QuestionOption list"
  q_weight :: real

record Answer =
  questionId :: string
  selectedOption :: string
  timestamp :: nat

text \<open>The shape \<open>{housing, transport, commercial, culture, price}\<close> of numbers, used for
  both \<open>preferences\<close> and \<open>categoryWeights\<close>.\<close>

record CategoryNumbers =
  housing :: real
  transport :: real
  commercial :: real
  culture :: real
  price :: real

text \<open>\<open>categoryWeights\<close> is optional in the model because \<open>calculateStationScore\<close>
  tests it for absence (\<open>userProfile.categoryWeights || {...}\<close>).\<close>

record UserProfile =
  preferences :: CategoryNumbers
  priorities :: "string list"
  categoryWeights :: "CategoryNumbers option"
  answers :: "Answer list"

record HousingFeatures =
  rentLevel :: real
  familyFriendly :: real
  quietness :: real

record TransportFeatures =
  accessibility :: real
  connections :: "string list"
  walkability :: real

record CommercialFeatures =
  shopping :: real
  restaurants :: real
  convenience :: real

record CultureFeatures =
  entertainment :: real
  history :: real
  nightlife :: real

record PriceFeatures =
  costOfLiving :: real
  diningCost :: real

record StationFeatures =
  f_housing :: HousingFeatures
  f_transport :: TransportFeatures
  f_commercial :: CommercialFeatures
  f_culture :: CultureFeatures
  f_price :: PriceFeatures

record Station =
  st_id :: string
  st_name :: string
  st_nameEn :: string
  st_latitude :: real
  st_longitude :: real
  features :: StationFeatures
  st_description :: string

section \<open>DiagnosticService (backend/src/services/DiagnosticService.ts)\<close>

text \<open>An entry of the \<open>userSessions\<close> map: the retained answers and the cached profile.\<close>

record Session =
  s_answers :: "Answer list"
  s_profile :: "UserProfile option"

type_synonym sessions = "string \<rightharpoonup> Session"

text \<open>The three \<open>throw new Error(...)\<close> of the service, one constructor per message.\<close>

datatype error =
  QuestionNotFound string
  | OptionNotFound string string
  | SessionNotFound string

text \<open>The constructor: \<open>this.userSessions = new Map()\<close>.\<close>

definition newSessions :: sessions where
  "newSessions = Map.empty"

text \<open>
  \<open>submitAnswer\<close> first creates the session entry when there is none, then validates the
  question and the option (each failure is a \<open>throw\<close>, after the entry was created), then
  replaces the session's answer list by the filtered list with the new answer pushed.
  The result is the returned array or the error, together with the updated map.
\<close>

definition submitAnswer ::
  "Question list \<Rightarrow> sessions \<Rightarrow> string \<Rightarrow> string \<Rightarrow> string \<Rightarrow> nat
     \<Rightarrow> (error + Answer list) \<times> sessions" where
  "submitAnswer questions userSessions sessionId qid selectedOptionId now =
     (let userSessions1 =
            (if userSessions sessionId = None
             then userSessions(sessionId \<mapsto> \<lparr>s_answers = [], s_profile = None\<rparr>)
             else userSessions);
          session = (case userSessions1 sessionId of
                       Some s \<Rightarrow> s
                     | None \<Rightarrow> \<lparr>s_answers = [], s_profile = None\<rparr>)
      in case find (\<lambda>q. q_id q = qid) questions of
           None \<Rightarrow> (Inl (QuestionNotFound qid), userSessions1)
         | Some question \<Rightarrow>
             (case find (\<lambda>opt. opt_id opt = selectedOptionId) (q_options question) of
                None \<Rightarrow> (Inl (OptionNotFound selectedOptionId qid), userSessions1)
              | Some selectedOpt \<Rightarrow>
                  (let answer = \<lparr>questionId = qid, selectedOption = selectedOptionId,
                                 timestamp = now\<rparr>;
                       answers' = filter (\<lambda>a. questionId a \<noteq> qid) (s_answers session) @ [answer]
                   in (Inr answers',
                       userSessions1(sessionId \<mapsto> session\<lparr>s_answers := answers'\<rparr>)))))"

subsection \<open>Profile computation: the body of \<open>getUserProfile\<close>\<close>

definition zeroNumbers :: CategoryNumbers where
  "zeroNumbers = \<lparr>housing = 0, transport = 0, commercial = 0, culture = 0, price = 0\<rparr>"

definition allNumbers :: "real \<Rightarrow> CategoryNumbers" where
  "allNumbers v = \<lparr>housing = v, transport = v, commercial = v, culture = v, price = v\<rparr>"


fun addCategory :: "QuestionCategory \<Rightarrow> real \<Rightarrow> CategoryNumbers \<Rightarrow> CategoryNumbers" where
  "addCategory Housing v n = n\<lparr>housing := housing n + v\<rparr>"
| "addCategory Transport v n = n\<lparr>transport := transport n + v\<rparr>"
| "addCategory Commercial v n = n\<lparr>commercial := commercial n + v\<rparr>"
| "addCategory Culture v n = n\<lparr>culture := culture n + v\<rparr>"
| "addCategory Price v n = n\<lparr>price := price n + v\<rparr>"
| "addCategory Priority v n = n"

text \<open>The lookup both loops start with: the answer's question and selected option, or
  nothing when the loop body \<open>continue\<close>s (unknown question, priority question, unknown
  option).\<close>

definition resolveAnswer :: "Question list \<Rightarrow> Answer \<Rightarrow> (Question \<times> QuestionOption) option" where
  "resolveAnswer questions answer =
     (case find (\<lambda>q. q_id q = questionId answer) questions of
        None \<Rightarrow> None
      | Some question \<Rightarrow>
          if q_category question = Priority then None
          else (case find (\<lambda>opt. opt_id opt = selectedOption answer) (q_options question) of
                  None \<Rightarrow> None
                | Some selectedOpt \<Rightarrow> Some (question, selectedOpt)))"

text \<open>First loop (lines 108-119): the pair of the running \<open>preferences\<close> and the running
  per-category weight sums.\<close>

fun accumulateScores ::
  "Question list \<Rightarrow> Answer list \<Rightarrow> CategoryNumbers \<times> CategoryNumbers
     \<Rightarrow> CategoryNumbers \<times> CategoryNumbers" where
  "accumulateScores questions [] acc = acc"
| "accumulateScores questions (answer # rest) (prefs, weights) =
     (case resolveAnswer questions answer of
        None \<Rightarrow> accumulateScores questions rest (prefs, weights)
      | Some (question, selectedOpt) \<Rightarrow>
          (let weightedScore = opt_value selectedOpt * q_weight question
           in accumulateScores questions rest
                (addCategory (q_category question) weightedScore prefs,
                 addCategory (q_category question) (q_weight question) weights)))"

text \<open>Second loop (lines 122-126): a category is divided by its weight sum only when the
  sum is positive, and is left as it is otherwise.\<close>

definition normalizeOne :: "real \<Rightarrow> real \<Rightarrow> real" where
  "normalizeOne pref weight = (if weight > 0 then pref / weight else pref)"

definition normalizeScores :: "CategoryNumbers \<Rightarrow> CategoryNumbers \<Rightarrow> CategoryNumbers" where
  "normalizeScores prefs weights =
     \<lparr>housing = normalizeOne (housing prefs) (housing weights),
      transport = normalizeOne (transport prefs) (transport weights),
      commercial = normalizeOne (commercial prefs) (commercial weights),
      culture = normalizeOne (culture prefs) (culture weights),
      price = normalizeOne (price prefs) (price weights)\<rparr>"

text \<open>\<open>String.prototype.includes\<close>: the second string occurs in the first.\<close>

fun startsWith :: "string \<Rightarrow> string \<Rightarrow> bool" where
  "startsWith s [] = True"
| "startsWith [] (c # t) = False"
| "startsWith (a # s) (c # t) = (a = c \<and> startsWith s t)"

fun includesStr :: "string \<Rightarrow> string \<Rightarrow> bool" where
  "includesStr [] t = (t = [])"
| "includesStr (a # s) t = (startsWith (a # s) t \<or> includesStr s t)"

text \<open>Lines 129-164: the category weights chosen by the answer to \<open>priority_01\<close>. The
  tests on the selected option id run in the source's order, each overwriting what an
  earlier one wrote.\<close>

definition userCategoryWeights :: "Answer list \<Rightarrow> CategoryNumbers" where
  "userCategoryWeights answerList =
     (case find (\<lambda>a. questionId a = ''priority_01'') answerList of
        None \<Rightarrow> allNumbers 1.0
      | Some priorityAnswer \<Rightarrow>
          (let sel = selectedOption priorityAnswer;
               w0 = allNumbers 0.5;
               w1 = (if includesStr sel ''housing'' then w0\<lparr>housing := 2.0, price := 2.0\<rparr> else w0);
               w2 = (if includesStr sel ''transport'' then w1\<lparr>transport := 2.0\<rparr> else w1);
               w3 = (if includesStr sel ''commercial'' then w2\<lparr>commercial := 2.0\<rparr> else w2);
               w4 = (if includesStr sel ''culture'' then w3\<lparr>culture := 2.0\<rparr> else w3);
               w5 = (if includesStr sel ''price'' then w4\<lparr>price := 3.0, housing := 2.5\<rparr> else w4)
           in if includesStr sel ''none'' then allNumbers 1.0 else w5))"

text \<open>Lines 168-182: \<open>tagCounts\<close> is a \<open>Map\<close>, which keeps its keys in the order of their
  first insertion; an association list updated in place models it.\<close>

fun tagGet :: "(string \<times> real) list \<Rightarrow> string \<Rightarrow> real option" where
  "tagGet [] tag = None"
| "tagGet ((k, v) # m) tag = (if k = tag then Some v else tagGet m tag)"

fun tagSet :: "(string \<times> real) list \<Rightarrow> string \<Rightarrow> real \<Rightarrow> (string \<times> real) list" where
  "tagSet [] tag v = [(tag, v)]"
| "tagSet ((k, w) # m) tag v = (if k = tag then (k, v) # m else (k, w) # tagSet m tag v)"

fun countTags :: "real \<Rightarrow> string list \<Rightarrow> (string \<times> real) list \<Rightarrow> (string \<times> real) list" where
  "countTags weight [] tagCounts = tagCounts"
| "countTags weight (tag # tags) tagCounts =
     (let currentCount = (case tagGet tagCounts tag of None \<Rightarrow> 0 | Some c \<Rightarrow> c)
      in countTags weight tags (tagSet tagCounts tag (currentCount + weight)))"

fun accumulateTags ::
  "Question list \<Rightarrow> Answer list \<Rightarrow> (string \<times> real) list \<Rightarrow> (string \<times> real) list" where
  "accumulateTags questions [] tagCounts = tagCounts"
| "accumulateTags questions (answer # rest) tagCounts =
     (case resolveAnswer questions answer of
        None \<Rightarrow> accumulateTags questions rest tagCounts
      | Some (question, selectedOpt) \<Rightarrow>
          accumulateTags questions rest
            (countTags (q_weight question) (opt_tags selectedOpt) tagCounts))"

text \<open>Lines 185-188: \<open>sort((a, b) => b[1] - a[1])\<close> is a stable sort by descending count;
  \<open>sort_key\<close> is a stable insertion sort, here on the negated count.\<close>

definition sortedTags :: "(string \<times> real) list \<Rightarrow> string list" where
  "sortedTags tagCounts = map fst (take 5 (sort_key (\<lambda>e. - snd e) tagCounts))"

text \<open>Lines 87-198 of \<open>getUserProfile\<close>: the profile built from the session's answers.\<close>

definition computeProfile :: "Question list \<Rightarrow> Answer list \<Rightarrow> UserProfile" where
  "computeProfile questions answerList =
     (let (prefs, weights) = accumulateScores questions answerList (zeroNumbers, zeroNumbers)
      in \<lparr>preferences = normalizeScores prefs weights,
          priorities = sortedTags (accumulateTags questions answerList []),
          categoryWeights = Some (userCategoryWeights answerList),
          answers = answerList\<rparr>)"

text \<open>\<open>getUserProfile\<close>: an unknown session is an error; a cached profile is returned as
  it is; otherwise the profile is computed and stored in the session.\<close>

definition getUserProfile ::
  "Question list \<Rightarrow> sessions \<Rightarrow> string \<Rightarrow> (error + UserProfile) \<times> sessions" where
  "getUserProfile questions userSessions sessionId =
     (case userSessions sessionId of
        None \<Rightarrow> (Inl (SessionNotFound sessionId), userSessions)
      | Some session \<Rightarrow>
          (case s_profile session of
             Some profile \<Rightarrow> (Inr profile, userSessions)
           | None \<Rightarrow>
               (let profile = computeProfile questions (s_answers session)
                in (Inr profile,
                    userSessions(sessionId \<mapsto> session\<lparr>s_profile := Some profile\<rparr>)))))"

text \<open>\<open>getAnswers\<close>: \<open>session ? session.answers : []\<close>.\<close>

definition getAnswers :: "sessions \<Rightarrow> string \<Rightarrow> Answer list" where
  "getAnswers userSessions sessionId =
     (case userSessions sessionId of Some session \<Rightarrow> s_answers session | None \<Rightarrow> [])"

definition clearSession :: "sessions \<Rightarrow> string \<Rightarrow> sessions" where
  "clearSession userSessions sessionId = userSessions(sessionId := None)"

section \<open>RecommendationService (backend/src/services/RecommendationService.ts)\<close>

record RecommendationExplanation =
  matchingFeatures :: "string list"
  strengths :: "string list"
  considerations :: "string list"

record Recommendation =
  station :: Station
  score :: real
  rank :: nat
  explanation :: RecommendationExplanation

text \<open>\<open>calculateCategoryScore\<close>: the average of the feature values, scaled by a fifth of
  the preference. Every call passes two or three values.\<close>

definition calculateCategoryScore :: "real \<Rightarrow> real list \<Rightarrow> real" where
  "calculateCategoryScore userPreference featureValues =
     (let avgFeatureValue =
            foldl (\<lambda>sum val. sum + val) 0 featureValues / real (length featureValues)
      in avgFeatureValue * (userPreference / 5))"

text \<open>The object literal \<open>priorityMappings\<close>: its eleven keys, each with the value its
  closure returns; any other tag has no entry.\<close>

definition priorityMappings :: "StationFeatures \<Rightarrow> string \<Rightarrow> real option" where
  "priorityMappings f priority =
     (if priority = ''family-friendly'' then Some (familyFriendly (f_housing f) * 2)
      else if priority = ''quiet'' then Some (quietness (f_housing f) * 2)
      else if priority = ''affordable'' then Some ((6 - costOfLiving (f_price f)) * 2)
      else if priority = ''shopping'' then Some (shopping (f_commercial f) * 2)
      else if priority = ''nightlife'' then Some (nightlife (f_culture f) * 2)
      else if priority = ''entertainment'' then Some (entertainment (f_culture f) * 2)
      else if priority = ''accessible'' then Some (accessibility (f_transport f) * 2)
      else if priority = ''walkable'' then Some (walkability (f_transport f) * 2)
      else if priority = ''restaurants'' then Some (restaurants (f_commercial f) * 2)
      else if priority = ''history'' then Some (history (f_culture f) * 2)
      else if priority = ''convenient'' then Some (convenience (f_commercial f) * 2)
      else None)"

definition calculatePriorityBonus :: "string list \<Rightarrow> Station \<Rightarrow> real" where
  "calculatePriorityBonus prios st =
     (let bonus = fold (\<lambda>priority bonus.
                          case priorityMappings (features st) priority of
                            None \<Rightarrow> bonus
                          | Some v \<Rightarrow> bonus + v)
                       (take 3 prios) 0
      in min 20 bonus)"

definition defaultCategoryWeights :: CategoryNumbers where
  "defaultCategoryWeights =
     \<lparr>housing = 1.0, transport = 1.0, commercial = 1.0, culture = 1.0, price = 1.0\<rparr>"

text \<open>Lines 45-125 of \<open>calculateStationScore\<close>: the pair \<open>(totalScore, totalWeight)\<close> after
  the five category blocks, each of which adds to both only when its preference is
  positive.\<close>

definition weightedTotals :: "UserProfile \<Rightarrow> Station \<Rightarrow> real \<times> real" where
  "weightedTotals userProfile st =
     (let prefs = preferences userProfile;
          cw = (case categoryWeights userProfile of
                  Some w \<Rightarrow> w
                | None \<Rightarrow> defaultCategoryWeights);
          f = features st;
          t0 = (0, 0);
          t1 = (if housing prefs > 0 then
                  (let housingScore = calculateCategoryScore (housing prefs)
                         [familyFriendly (f_housing f), quietness (f_housing f)];
                       weight = housing prefs * housing cw
                   in (fst t0 + housingScore * weight, snd t0 + weight))
                else t0);
          t2 = (if transport prefs > 0 then
                  (let transportScore = calculateCategoryScore (transport prefs)
                         [accessibility (f_transport f),
                          min 5 (real (length (connections (f_transport f))))];
                       weight = transport prefs * transport cw
                   in (fst t1 + transportScore * weight, snd t1 + weight))
                else t1);
          t3 = (if commercial prefs > 0 then
                  (let commercialScore = calculateCategoryScore (commercial prefs)
                         [shopping (f_commercial f), restaurants (f_commercial f),
                          convenience (f_commercial f)];
                       weight = commercial prefs * commercial cw
                   in (fst t2 + commercialScore * weight, snd t2 + weight))
                else t2);
          t4 = (if culture prefs > 0 then
                  (let cultureScore = calculateCategoryScore (culture prefs)
                         [entertainment (f_culture f), history (f_culture f),
                          nightlife (f_culture f)];
                       weight = culture prefs * culture cw
                   in (fst t3 + cultureScore * weight, snd t3 + weight))
                else t3);
          t5 = (if price prefs > 0 then
                  (let combinedPriceWeight = max (price cw) (housing cw);
                       priceBoostMultiplier = (if price cw \<ge> 3.0 then 1.5 else 1.0);
                       priceScore = calculateCategoryScore (price prefs)
                         [6 - rentLevel (f_housing f), 6 - costOfLiving (f_price f),
                          6 - diningCost (f_price f)];
                       weight = price prefs * combinedPriceWeight * priceBoostMultiplier
                   in (fst t4 + priceScore * weight, snd t4 + weight))
                else t4)
      in t5)"

text \<open>Line 128: the local \<open>baseScore\<close>.\<close>

definition baseScore :: "UserProfile \<Rightarrow> Station \<Rightarrow> real" where
  "baseScore userProfile st =
     (let (totalScore, totalWeight) = weightedTotals userProfile st
      in if totalWeight > 0 then (totalScore / totalWeight) * 20 else 0)"

definition calculateStationScore :: "UserProfile \<Rightarrow> Station \<Rightarrow> real" where
  "calculateStationScore userProfile st =
     (let priorityBonus = calculatePriorityBonus (priorities userProfile) st
      in min 100 (max 0 (baseScore userProfile st + priorityBonus)))"

text \<open>\<open>calculateScores\<close>: the \<open>Map\<close> from station id to score, filled in catalog order (a
  later station with the same id overwrites the entry).\<close>

definition calculateScores :: "Station list \<Rightarrow> UserProfile \<Rightarrow> (string \<rightharpoonup> real)" where
  "calculateScores stations userProfile =
     fold (\<lambda>st scores. scores(st_id st \<mapsto> calculateStationScore userProfile st))
          stations Map.empty"

text \<open>The array \<open>stationScores\<close> that both ranking functions build: each station paired
  with \<open>scores.get(station.id) || 0\<close>, sorted with the comparator \<open>b.score - a.score\<close>.
  \<open>Array.prototype.sort\<close> is stable, as is \<open>sort_key\<close> on the negated score.\<close>

definition stationScores :: "Station list \<Rightarrow> UserProfile \<Rightarrow> (Station \<times> real) list" where
  "stationScores stations userProfile =
     (let scores = calculateScores stations userProfile
      in sort_key (\<lambda>e. - snd e)
           (map (\<lambda>st. (st, case scores (st_id st) of Some sc \<Rightarrow> sc | None \<Rightarrow> 0)) stations))"

text \<open>\<open>Math.round(score * 100) / 100\<close>; \<open>Math.round\<close> rounds a half upwards.\<close>

definition roundScore :: "real \<Rightarrow> real" where
  "roundScore sc = real_of_int \<lfloor>sc * 100 + 1 / 2\<rfloor> / 100"

text \<open>
  \<open>explainRecommendation\<close> pushes onto three arrays. The model lists the pushes in the
  order the source makes them and then reads each array off that list. The source's
  sentences are Japanese template literals around the station name; a sentence is modelled
  as the station name followed by \<open>#\<close> and the source line of its template.
\<close>

datatype push = Match string | Strength string | Consideration string

definition sentence :: "Station \<Rightarrow> string \<Rightarrow> string" where
  "sentence st line = st_name st @ ''#'' @ line"

definition priorityPush :: "Station \<Rightarrow> string \<Rightarrow> push list" where
  "priorityPush st priority =
     (let f = features st
      in if priority = ''family-friendly'' then
           (if familyFriendly (f_housing f) \<ge> 4 then [Strength (sentence st ''356'')] else [])
         else if priority = ''quiet'' then
           (if quietness (f_housing f) \<ge> 4 then [Strength (sentence st ''361'')] else [])
         else if priority = ''affordable'' then
           (if costOfLiving (f_price f) \<le> 2 then [Strength (sentence st ''366'')] else [])
         else if priority = ''shopping'' then
           (if shopping (f_commercial f) \<ge> 4 then [Strength (sentence st ''371'')] else [])
         else if priority = ''nightlife'' then
           (if nightlife (f_culture f) \<ge> 4 then [Strength (sentence st ''376'')] else [])
         else [])"

definition explanationPushes :: "Station \<Rightarrow> UserProfile \<Rightarrow> push list" where
  "explanationPushes st userProfile =
     (let f = features st;
          prefs = preferences userProfile;
          when = (\<lambda>c ps. if c then ps else []);
          both = (\<lambda>m line. [Match m, Strength (sentence st line)])
      in when (housing prefs > 3)
           (when (familyFriendly (f_housing f) \<ge> 4) (both ''family-friendly environment'' ''277'')
            @ when (quietness (f_housing f) \<ge> 4) (both ''quiet residential area'' ''281'')
            @ (if rentLevel (f_housing f) \<le> 2 then both ''affordable housing'' ''285''
               else if rentLevel (f_housing f) \<ge> 4 then [Consideration (sentence st ''287'')]
               else []))
         @ when (transport prefs > 3)
           (when (accessibility (f_transport f) \<ge> 4) (both ''excellent accessibility'' ''295'')
            @ when (walkability (f_transport f) \<ge> 4) (both ''walkable area'' ''299'')
            @ when (length (connections (f_transport f)) \<ge> 3)
                (both ''multiple train lines'' ''303''))
         @ when (commercial prefs > 3)
           (when (shopping (f_commercial f) \<ge> 4) (both ''excellent shopping'' ''311'')
            @ when (restaurants (f_commercial f) \<ge> 4) (both ''diverse dining options'' ''315'')
            @ when (convenience (f_commercial f) \<ge> 4)
                (both ''convenient daily shopping'' ''319''))
         @ when (culture prefs > 3)
           (when (entertainment (f_culture f) \<ge> 4) (both ''rich entertainment'' ''327'')
            @ when (history (f_culture f) \<ge> 4) (both ''historical significance'' ''331'')
            @ when (nightlife (f_culture f) \<ge> 4) (both ''vibrant nightlife'' ''335''))
         @ when (price prefs > 3)
           (when (costOfLiving (f_price f) \<le> 2) (both ''affordable living costs'' ''343'')
            @ when (diningCost (f_price f) \<le> 2) (both ''affordable dining'' ''347''))
         @ concat (map (priorityPush st) (take 3 (priorities userProfile))))"

definition explainRecommendation :: "Station \<Rightarrow> UserProfile \<Rightarrow> RecommendationExplanation" where
  "explainRecommendation st userProfile =
     (let pushes = explanationPushes st userProfile;
          matching = concat (map (\<lambda>p. case p of Match m \<Rightarrow> [m] | _ \<Rightarrow> []) pushes);
          strong = concat (map (\<lambda>p. case p of Strength m \<Rightarrow> [m] | _ \<Rightarrow> []) pushes);
          consider = concat (map (\<lambda>p. case p of Consideration m \<Rightarrow> [m] | _ \<Rightarrow> []) pushes)
      in \<lparr>matchingFeatures = matching,
          strengths = strong,
          considerations =
            (if length matching = 0 then consider @ [sentence st ''384''] else consider)\<rparr>)"

definition emptyExplanation :: RecommendationExplanation where
  "emptyExplanation = \<lparr>matchingFeatures = [], strengths = [], considerations = []\<rparr>"

text \<open>\<open>generateRecommendations\<close>: the loop \<open>for (i = 0; i < Math.min(3, length); i++)\<close> over
  the sorted array, every index in range.\<close>

definition generateRecommendations :: "Station list \<Rightarrow> UserProfile \<Rightarrow> Recommendation list" where
  "generateRecommendations stations userProfile =
     (let sorted = stationScores stations userProfile
      in map (\<lambda>i. case sorted ! i of
                     (st, sc) \<Rightarrow>
                       \<lparr>station = st, score = roundScore sc, rank = i + 1,
                        explanation = explainRecommendation st userProfile\<rparr>)
             [0 ..< min 3 (length sorted)])"

text \<open>\<open>generateFullRanking\<close>: the same loop over the whole array, with the empty
  explanation.\<close>

definition generateFullRanking :: "Station list \<Rightarrow> UserProfile \<Rightarrow> Recommendation list" where
  "generateFullRanking stations userProfile =
     (let sorted = stationScores stations userProfile
      in map (\<lambda>i. case sorted ! i of
                     (st, sc) \<Rightarrow>
                       \<lparr>station = st, score = roundScore sc, rank = i + 1,
                        explanation = emptyExplanation\<rparr>)
             [0 ..< length sorted])"

section \<open>Clients of the services\<close>

text \<open>A client makes calls on the one \<open>DiagnosticService\<close> instance, one after the other.
  A call that throws leaves the map as that call left it, and the client goes on.\<close>

datatype call =
  Submit string string string nat
  | ReadProfile string
  | Clear string

fun runCall :: "Question list \<Rightarrow> sessions \<Rightarrow> call \<Rightarrow> sessions" where
  "runCall questions ss (Submit sid qid oid now) = snd (submitAnswer questions ss sid qid oid now)"
| "runCall questions ss (ReadProfile sid) = snd (getUserProfile questions ss sid)"
| "runCall questions ss (Clear sid) = clearSession ss sid"

definition runCalls :: "Question list \<Rightarrow> call list \<Rightarrow> sessions" where
  "runCalls questions calls = foldl (runCall questions) newSessions calls"

section \<open>Notions of the specification\<close>


text \<open>The tokens of the category-weight table, and an option id that selects a single one
  of them: it contains that token and none of the other five.\<close>

definition priorityTokens :: "string list" where
  "priorityTokens = [''housing'', ''transport'', ''commercial'', ''culture'', ''price'', ''none'']"

definition selectsToken :: "string \<Rightarrow> string \<Rightarrow> bool" where
  "selectsToken sel token =
     (includesStr sel token
      \<and> list_all (\<lambda>t. t = token \<or> \<not> includesStr sel t) priorityTokens)"




section \<open>A small catalog\<close>

text \<open>Three questions and four stations on which the general theorems are instantiated.\<close>

definition housingQuestion :: Question where
  "housingQuestion =
     \<lparr>q_id = ''housing_01'', q_category = Housing, q_text = ''housing'',
      q_options =
        [\<lparr>opt_id = ''housing_01_a'', opt_text = ''a'', opt_value = 1, opt_tags = [''quiet'']\<rparr>,
         \<lparr>opt_id = ''housing_01_b'', opt_text = ''b'', opt_value = 5,
          opt_tags = [''family-friendly'', ''quiet'']\<rparr>],
      q_weight = 1.5\<rparr>"

definition transportQuestion :: Question where
  "transportQuestion =
     \<lparr>q_id = ''transport_01'', q_category = Transport, q_text = ''transport'',
      q_options =
        [\<lparr>opt_id = ''transport_01_a'', opt_text = ''a'', opt_value = 4,
          opt_tags = [''accessible'']\<rparr>],
      q_weight = 2\<rparr>"

definition priorityQuestion :: Question where
  "priorityQuestion =
     \<lparr>q_id = ''priority_01'', q_category = Priority, q_text = ''priority'',
      q_options =
        [\<lparr>opt_id = ''priority_price'', opt_text = ''a'', opt_value = 0, opt_tags = []\<rparr>,
         \<lparr>opt_id = ''priority_none'', opt_text = ''b'', opt_value = 0, opt_tags = []\<rparr>],
      q_weight = 1\<rparr>"

definition exampleQuestions :: "Question list" where
  "exampleQuestions = [housingQuestion, transportQuestion, priorityQuestion]"

text \<open>A station whose ratings all have the value \<open>v\<close>, except the rent level, and with \<open>n\<close>
  connecting lines.\<close>

definition uniformStation :: "string \<Rightarrow> real \<Rightarrow> real \<Rightarrow> nat \<Rightarrow> Station" where
  "uniformStation name v rent n =
     \<lparr>st_id = name, st_name = name, st_nameEn = name, st_latitude = 35, st_longitude = 139,
      features =
        \<lparr>f_housing = \<lparr>rentLevel = rent, familyFriendly = v, quietness = v\<rparr>,
         f_transport = \<lparr>accessibility = v, connections = replicate n ''line'', walkability = v\<rparr>,
         f_commercial = \<lparr>shopping = v, restaurants = v, convenience = v\<rparr>,
         f_culture = \<lparr>entertainment = v, history = v, nightlife = v\<rparr>,
         f_price = \<lparr>costOfLiving = v, diningCost = v\<rparr>\<rparr>,
      st_description = name\<rparr>"

definition exampleStations :: "Station list" where
  "exampleStations =
     [uniformStation ''B'' 1 5 2, uniformStation ''C'' 3 3 3,
      uniformStation ''A'' 5 1 5, uniformStation ''D'' 3 3 3]"

definition exampleProfile :: UserProfile where
  "exampleProfile =
     \<lparr>preferences = allNumbers 5, priorities = [], categoryWeights = Some (allNumbers 1),
      answers = []\<rparr>"

definition answerA :: Answer where
  "answerA = \<lparr>questionId = ''housing_01'', selectedOption = ''housing_01_a'', timestamp = 100\<rparr>"

definition answerB :: Answer where
  "answerB = \<lparr>questionId = ''housing_01'', selectedOption = ''housing_01_b'', timestamp = 200\<rparr>"

definition priceAnswer :: Answer where
  "priceAnswer = \<lparr>questionId = ''priority_01'', selectedOption = ''priority_price'',
                   timestamp = 300\<rparr>"

section \<open>Answer submission and the session map\<close>




lemma submitAnswer_Inl:
  assumes "submitAnswer questions ss sid qid oid now = (Inl e, ss')"
  shows "ss' = (if ss sid = None then ss(sid \<mapsto> \<lparr>s_answers = [], s_profile = None\<rparr>) else ss)"
  using assms by (auto simp: submitAnswer_def Let_def split: option.splits)

subsection \<open>At most one answer per question\<close>








subsection \<open>Submissions alone never cache a profile\<close>





subsection \<open>The services on the small catalog\<close>

lemmas example_defs =
  exampleQuestions_def housingQuestion_def transportQuestion_def priorityQuestion_def

lemma example_first_submit:
  "submitAnswer exampleQuestions newSessions ''s'' ''housing_01'' ''housing_01_a'' 100 =
     (Inr [\<lparr>questionId = ''housing_01'', selectedOption = ''housing_01_a'', timestamp = 100\<rparr>],
      [''s'' \<mapsto> \<lparr>s_answers = [\<lparr>questionId = ''housing_01'',
           selectedOption = ''housing_01_a'', timestamp = 100\<rparr>], s_profile = None\<rparr>])"
  by (simp add: submitAnswer_def example_defs newSessions_def Let_def)

lemma example_second_submit:
  "submitAnswer exampleQuestions
     [''s'' \<mapsto> \<lparr>s_answers = [\<lparr>questionId = ''housing_01'',
           selectedOption = ''housing_01_a'', timestamp = 100\<rparr>], s_profile = p\<rparr>]
     ''s'' ''housing_01'' ''housing_01_b'' 200 =
     (Inr [\<lparr>questionId = ''housing_01'', selectedOption = ''housing_01_b'', timestamp = 200\<rparr>],
      [''s'' \<mapsto> \<lparr>s_answers = [\<lparr>questionId = ''housing_01'',
           selectedOption = ''housing_01_b'', timestamp = 200\<rparr>], s_profile = p\<rparr>])"
  by (simp add: submitAnswer_def example_defs Let_def)

lemma example_direct_submit:
  "submitAnswer exampleQuestions newSessions ''s'' ''housing_01'' ''housing_01_b'' 200 =
     (Inr [\<lparr>questionId = ''housing_01'', selectedOption = ''housing_01_b'', timestamp = 200\<rparr>],
      [''s'' \<mapsto> \<lparr>s_answers = [\<lparr>questionId = ''housing_01'',
           selectedOption = ''housing_01_b'', timestamp = 200\<rparr>], s_profile = None\<rparr>])"
  by (simp add: submitAnswer_def example_defs newSessions_def Let_def)


lemma example_profile_a:
  "computeProfile exampleQuestions
     [\<lparr>questionId = ''housing_01'', selectedOption = ''housing_01_a'', timestamp = 100\<rparr>]
   = \<lparr>preferences = \<lparr>housing = 1, transport = 0, commercial = 0, culture = 0, price = 0\<rparr>,
      priorities = [''quiet''],
      categoryWeights = Some (allNumbers 1),
      answers = [\<lparr>questionId = ''housing_01'', selectedOption = ''housing_01_a'',
                  timestamp = 100\<rparr>]\<rparr>"
  by (simp add: computeProfile_def resolveAnswer_def example_defs zeroNumbers_def Let_def
        normalizeScores_def normalizeOne_def sortedTags_def userCategoryWeights_def)

lemma example_profile_b:
  "computeProfile exampleQuestions
     [\<lparr>questionId = ''housing_01'', selectedOption = ''housing_01_b'', timestamp = 200\<rparr>]
   = \<lparr>preferences = \<lparr>housing = 5, transport = 0, commercial = 0, culture = 0, price = 0\<rparr>,
      priorities = [''family-friendly'', ''quiet''],
      categoryWeights = Some (allNumbers 1),
      answers = [\<lparr>questionId = ''housing_01'', selectedOption = ''housing_01_b'',
                  timestamp = 200\<rparr>]\<rparr>"
  by (simp add: computeProfile_def resolveAnswer_def example_defs zeroNumbers_def Let_def
        normalizeScores_def normalizeOne_def sortedTags_def userCategoryWeights_def)

subsection \<open>Last write wins\<close>



subsection \<open>Failed submissions\<close>

text \<open>
  Claim C10. An unknown question id and an unknown option id make \<open>submitAnswer\<close> fail.
  A failed call on an existing session leaves the whole map, and so the session's answers,
  unchanged. A failed call on an unknown session id leaves an empty session behind, and
  a profile read on it succeeds with all preferences 0, no priorities and balanced
  weights.
\<close>

theorem submitAnswer_failure_effects:
  "(find (\<lambda>q. q_id q = qid) questions = None \<longrightarrow>
      fst (submitAnswer questions ss sid qid oid now) = Inl (QuestionNotFound qid))
   \<and> (find (\<lambda>q. q_id q = qid) questions = Some question
        \<and> find (\<lambda>opt. opt_id opt = oid) (q_options question) = None \<longrightarrow>
      fst (submitAnswer questions ss sid qid oid now) = Inl (OptionNotFound oid qid))
   \<and> (submitAnswer questions ss sid qid oid now = (Inl e, ss') \<longrightarrow>
        (ss sid \<noteq> None \<longrightarrow> ss' = ss \<and> getAnswers ss' sid = getAnswers ss sid)
        \<and> (ss sid = None \<longrightarrow>
             ss' = ss(sid \<mapsto> \<lparr>s_answers = [], s_profile = None\<rparr>)
             \<and> fst (getUserProfile questions ss' sid) = Inr
                 \<lparr>preferences =
                    \<lparr>housing = 0, transport = 0, commercial = 0, culture = 0, price = 0\<rparr>,
                  priorities = [],
                  categoryWeights = Some
                    \<lparr>housing = 1.0, transport = 1.0, commercial = 1.0, culture = 1.0,
                     price = 1.0\<rparr>,
                  answers = []\<rparr>))"
proof (intro conjI impI)
  assume "find (\<lambda>q. q_id q = qid) questions = None"
  then show "fst (submitAnswer questions ss sid qid oid now) = Inl (QuestionNotFound qid)"
    by (simp add: submitAnswer_def Let_def)
next
  assume "find (\<lambda>q. q_id q = qid) questions = Some question
        \<and> find (\<lambda>opt. opt_id opt = oid) (q_options question) = None"
  then show "fst (submitAnswer questions ss sid qid oid now) = Inl (OptionNotFound oid qid)"
    by (simp add: submitAnswer_def Let_def)
next
  assume a: "submitAnswer questions ss sid qid oid now = (Inl e, ss')"
  { assume "ss sid \<noteq> None"
    then show "ss' = ss" using submitAnswer_Inl [OF a] by auto
    then show "getAnswers ss' sid = getAnswers ss sid" by simp }
  { assume n: "ss sid = None"
    then show s: "ss' = ss(sid \<mapsto> \<lparr>s_answers = [], s_profile = None\<rparr>)"
      using submitAnswer_Inl [OF a] by simp
    show "fst (getUserProfile questions ss' sid) = Inr
                 \<lparr>preferences =
                    \<lparr>housing = 0, transport = 0, commercial = 0, culture = 0, price = 0\<rparr>,
                  priorities = [],
                  categoryWeights = Some
                    \<lparr>housing = 1.0, transport = 1.0, commercial = 1.0, culture = 1.0,
                     price = 1.0\<rparr>,
                  answers = []\<rparr>"
      by (simp add: s getUserProfile_def Let_def computeProfile_def zeroNumbers_def
            normalizeScores_def normalizeOne_def sortedTags_def userCategoryWeights_def
            allNumbers_def) }
qed

theorem submitAnswer_failure_effects_witness:
  "submitAnswer exampleQuestions newSessions ''t'' ''nope'' ''housing_01_a'' 100
     = (Inl (QuestionNotFound ''nope''), [''t'' \<mapsto> \<lparr>s_answers = [], s_profile = None\<rparr>])
   \<and> fst (getUserProfile exampleQuestions
             [''t'' \<mapsto> \<lparr>s_answers = [], s_profile = None\<rparr>] ''t'') = Inr
         \<lparr>preferences = \<lparr>housing = 0, transport = 0, commercial = 0, culture = 0, price = 0\<rparr>,
          priorities = [],
          categoryWeights = Some
            \<lparr>housing = 1.0, transport = 1.0, commercial = 1.0, culture = 1.0, price = 1.0\<rparr>,
          answers = []\<rparr>
   \<and> submitAnswer exampleQuestions [''s'' \<mapsto> \<lparr>s_answers = [answerA], s_profile = None\<rparr>]
         ''s'' ''housing_01'' ''nope'' 200
     = (Inl (OptionNotFound ''nope'' ''housing_01''),
        [''s'' \<mapsto> \<lparr>s_answers = [answerA], s_profile = None\<rparr>])"
proof -
  let ?t = "[''t'' \<mapsto> \<lparr>s_answers = [], s_profile = None\<rparr>]"
  let ?s = "[''s'' \<mapsto> \<lparr>s_answers = [answerA], s_profile = None\<rparr>]"
  have q: "find (\<lambda>q. q_id q = ''nope'') exampleQuestions = None"
    by (simp add: example_defs)
  have e1: "submitAnswer exampleQuestions newSessions ''t'' ''nope'' ''housing_01_a'' 100
     = (Inl (QuestionNotFound ''nope''), ?t)"
    by (simp add: submitAnswer_def example_defs newSessions_def Let_def)
  have n: "newSessions ''t'' = None" by (simp add: newSessions_def)
  have q2: "find (\<lambda>q. q_id q = ''housing_01'') exampleQuestions = Some housingQuestion
            \<and> find (\<lambda>opt. opt_id opt = ''nope'') (q_options housingQuestion) = None"
    by (simp add: example_defs)
  have e2: "submitAnswer exampleQuestions ?s ''s'' ''housing_01'' ''nope'' 200
     = (Inl (OptionNotFound ''nope'' ''housing_01''), ?s)"
    by (simp add: submitAnswer_def example_defs Let_def)
  have s: "?s ''s'' \<noteq> None" by simp
  show ?thesis
    using submitAnswer_failure_effects
            [where questions = exampleQuestions and ss = newSessions and sid = "''t''"
               and qid = "''nope''" and oid = "''housing_01_a''" and now = 100
               and e = "QuestionNotFound ''nope''" and ss' = ?t]
          submitAnswer_failure_effects
            [where questions = exampleQuestions and ss = ?s and sid = "''s''"
               and qid = "''housing_01''" and oid = "''nope''" and now = 200
               and question = housingQuestion
               and e = "OptionNotFound ''nope'' ''housing_01''" and ss' = ?s]
          q e1 n q2 e2 s
    by (simp add: newSessions_def)
qed

section \<open>Profile computation\<close>














subsection \<open>Category weights\<close>

text \<open>
  \<open>includesStr\<close> is the substring test.
\<close>

lemma startsWith_iff: "startsWith s t \<longleftrightarrow> (\<exists>ss. s = t @ ss)"
  by (induction s t rule: startsWith.induct) auto

lemma includesStr_iff: "includesStr s t \<longleftrightarrow> (\<exists>ps ss. s = ps @ t @ ss)"
proof (induction s)
  case Nil
  then show ?case by simp
next
  case (Cons a s)
  have "(\<exists>ps ss. a # s = ps @ t @ ss)
          \<longleftrightarrow> (\<exists>ss. a # s = t @ ss) \<or> (\<exists>ps ss. s = ps @ t @ ss)"
  proof
    assume "\<exists>ps ss. a # s = ps @ t @ ss"
    then obtain ps ss where e: "a # s = ps @ t @ ss" by blast
    show "(\<exists>ss. a # s = t @ ss) \<or> (\<exists>ps ss. s = ps @ t @ ss)"
    proof (cases ps)
      case Nil
      with e show ?thesis by auto
    next
      case (Cons b ps')
      with e have "s = ps' @ t @ ss" by simp
      then show ?thesis by blast
    qed
  next
    assume "(\<exists>ss. a # s = t @ ss) \<or> (\<exists>ps ss. s = ps @ t @ ss)"
    then show "\<exists>ps ss. a # s = ps @ t @ ss"
    proof
      assume "\<exists>ss. a # s = t @ ss"
      then obtain ss where "a # s = [] @ t @ ss" by auto
      then show ?thesis by blast
    next
      assume "\<exists>ps ss. s = ps @ t @ ss"
      then obtain ps ss where "a # s = (a # ps) @ t @ ss" by auto
      then show ?thesis by blast
    qed
  qed
  with Cons show ?case by (simp add: startsWith_iff del: startsWith.simps)
qed

lemma computeProfile_categoryWeights:
  "categoryWeights (computeProfile questions as) = Some (userCategoryWeights as)"
  by (simp add: computeProfile_def split_beta)

lemma userCategoryWeights_none_answer:
  "find (\<lambda>a. questionId a = ''priority_01'') as = None \<Longrightarrow> userCategoryWeights as = allNumbers 1"
  by (simp add: userCategoryWeights_def)

lemma selectsToken_iff:
  "selectsToken sel token \<longleftrightarrow>
     includesStr sel token
     \<and> (token = ''housing'' \<or> \<not> includesStr sel ''housing'')
     \<and> (token = ''transport'' \<or> \<not> includesStr sel ''transport'')
     \<and> (token = ''commercial'' \<or> \<not> includesStr sel ''commercial'')
     \<and> (token = ''culture'' \<or> \<not> includesStr sel ''culture'')
     \<and> (token = ''price'' \<or> \<not> includesStr sel ''price'')
     \<and> (token = ''none'' \<or> \<not> includesStr sel ''none'')"
  by (auto simp: selectsToken_def priorityTokens_def)

lemma userCategoryWeights_token:
  assumes "find (\<lambda>a. questionId a = ''priority_01'') as = Some pa"
  shows "selectsToken (selectedOption pa) ''housing'' \<Longrightarrow> userCategoryWeights as =
           \<lparr>housing = 2.0, transport = 0.5, commercial = 0.5, culture = 0.5, price = 2.0\<rparr>"
    and "selectsToken (selectedOption pa) ''transport'' \<Longrightarrow> userCategoryWeights as =
           \<lparr>housing = 0.5, transport = 2.0, commercial = 0.5, culture = 0.5, price = 0.5\<rparr>"
    and "selectsToken (selectedOption pa) ''commercial'' \<Longrightarrow> userCategoryWeights as =
           \<lparr>housing = 0.5, transport = 0.5, commercial = 2.0, culture = 0.5, price = 0.5\<rparr>"
    and "selectsToken (selectedOption pa) ''culture'' \<Longrightarrow> userCategoryWeights as =
           \<lparr>housing = 0.5, transport = 0.5, commercial = 0.5, culture = 2.0, price = 0.5\<rparr>"
    and "selectsToken (selectedOption pa) ''price'' \<Longrightarrow> userCategoryWeights as =
           \<lparr>housing = 2.5, transport = 0.5, commercial = 0.5, culture = 0.5, price = 3.0\<rparr>"
    and "includesStr (selectedOption pa) ''none'' \<Longrightarrow> userCategoryWeights as = allNumbers 1.0"
  using assms
  by (simp_all add: userCategoryWeights_def selectsToken_iff Let_def allNumbers_def)

text \<open>
  Claim C5. Without an answer to \<open>priority_01\<close> the five category weights are 1.0. With
  one, an option id that selects the single token housing gives housing 2.0 and price 2.0,
  transport gives transport 2.0, commercial gives commercial 2.0, culture gives culture
  2.0, price gives price 3.0 and housing 2.5, every other weight being 0.5; an option id
  containing none gives 1.0 everywhere. This is the profile that \<open>getUserProfile\<close>
  returns for a session without a cached profile.
\<close>

theorem category_weight_presets:
  "(find (\<lambda>a. questionId a = ''priority_01'') as = None \<longrightarrow>
      categoryWeights (computeProfile questions as) = Some
        \<lparr>housing = 1.0, transport = 1.0, commercial = 1.0, culture = 1.0, price = 1.0\<rparr>)
   \<and> (find (\<lambda>a. questionId a = ''priority_01'') as = Some pa \<longrightarrow>
        (selectsToken (selectedOption pa) ''housing'' \<longrightarrow>
           categoryWeights (computeProfile questions as) = Some
             \<lparr>housing = 2.0, transport = 0.5, commercial = 0.5, culture = 0.5, price = 2.0\<rparr>)
        \<and> (selectsToken (selectedOption pa) ''transport'' \<longrightarrow>
           categoryWeights (computeProfile questions as) = Some
             \<lparr>housing = 0.5, transport = 2.0, commercial = 0.5, culture = 0.5, price = 0.5\<rparr>)
        \<and> (selectsToken (selectedOption pa) ''commercial'' \<longrightarrow>
           categoryWeights (computeProfile questions as) = Some
             \<lparr>housing = 0.5, transport = 0.5, commercial = 2.0, culture = 0.5, price = 0.5\<rparr>)
        \<and> (selectsToken (selectedOption pa) ''culture'' \<longrightarrow>
           categoryWeights (computeProfile questions as) = Some
             \<lparr>housing = 0.5, transport = 0.5, commercial = 0.5, culture = 2.0, price = 0.5\<rparr>)
        \<and> (selectsToken (selectedOption pa) ''price'' \<longrightarrow>
           categoryWeights (computeProfile questions as) = Some
             \<lparr>housing = 2.5, transport = 0.5, commercial = 0.5, culture = 0.5, price = 3.0\<rparr>)
        \<and> (includesStr (selectedOption pa) ''none'' \<longrightarrow>
           categoryWeights (computeProfile questions as) = Some
             \<lparr>housing = 1.0, transport = 1.0, commercial = 1.0, culture = 1.0, price = 1.0\<rparr>))
   \<and> (ss sid = Some s \<and> s_profile s = None \<and> s_answers s = as \<longrightarrow>
        fst (getUserProfile questions ss sid) = Inr (computeProfile questions as))"
proof (intro conjI impI)
  assume "find (\<lambda>a. questionId a = ''priority_01'') as = None"
  then show "categoryWeights (computeProfile questions as) = Some
        \<lparr>housing = 1.0, transport = 1.0, commercial = 1.0, culture = 1.0, price = 1.0\<rparr>"
    by (simp add: computeProfile_categoryWeights userCategoryWeights_none_answer allNumbers_def)
next
  assume "ss sid = Some s \<and> s_profile s = None \<and> s_answers s = as"
  then show "fst (getUserProfile questions ss sid) = Inr (computeProfile questions as)"
    by (auto simp: getUserProfile_def Let_def)
next
  assume pa: "find (\<lambda>a. questionId a = ''priority_01'') as = Some pa"
  note t = userCategoryWeights_token [OF pa]
  { assume "selectsToken (selectedOption pa) ''housing''"
    then show "categoryWeights (computeProfile questions as) = Some
             \<lparr>housing = 2.0, transport = 0.5, commercial = 0.5, culture = 0.5, price = 2.0\<rparr>"
      by (simp only: computeProfile_categoryWeights t(1)) }
  { assume "selectsToken (selectedOption pa) ''transport''"
    then show "categoryWeights (computeProfile questions as) = Some
             \<lparr>housing = 0.5, transport = 2.0, commercial = 0.5, culture = 0.5, price = 0.5\<rparr>"
      by (simp only: computeProfile_categoryWeights t(2)) }
  { assume "selectsToken (selectedOption pa) ''commercial''"
    then show "categoryWeights (computeProfile questions as) = Some
             \<lparr>housing = 0.5, transport = 0.5, commercial = 2.0, culture = 0.5, price = 0.5\<rparr>"
      by (simp only: computeProfile_categoryWeights t(3)) }
  { assume "selectsToken (selectedOption pa) ''culture''"
    then show "categoryWeights (computeProfile questions as) = Some
             \<lparr>housing = 0.5, transport = 0.5, commercial = 0.5, culture = 2.0, price = 0.5\<rparr>"
      by (simp only: computeProfile_categoryWeights t(4)) }
  { assume "selectsToken (selectedOption pa) ''price''"
    then show "categoryWeights (computeProfile questions as) = Some
             \<lparr>housing = 2.5, transport = 0.5, commercial = 0.5, culture = 0.5, price = 3.0\<rparr>"
      by (simp only: computeProfile_categoryWeights t(5)) }
  { assume "includesStr (selectedOption pa) ''none''"
    then show "categoryWeights (computeProfile questions as) = Some
             \<lparr>housing = 1.0, transport = 1.0, commercial = 1.0, culture = 1.0, price = 1.0\<rparr>"
      by (simp add: computeProfile_categoryWeights t(6) allNumbers_def) }
qed

theorem category_weight_presets_witness:
  "find (\<lambda>a. questionId a = ''priority_01'') [answerB, priceAnswer] = Some priceAnswer
   \<and> selectsToken (selectedOption priceAnswer) ''price''
   \<and> categoryWeights (computeProfile exampleQuestions [answerB, priceAnswer]) = Some
        \<lparr>housing = 2.5, transport = 0.5, commercial = 0.5, culture = 0.5, price = 3.0\<rparr>
   \<and> find (\<lambda>a. questionId a = ''priority_01'') [answerB] = None
   \<and> categoryWeights (computeProfile exampleQuestions [answerB]) = Some
        \<lparr>housing = 1.0, transport = 1.0, commercial = 1.0, culture = 1.0, price = 1.0\<rparr>
   \<and> fst (getUserProfile exampleQuestions
             [''s'' \<mapsto> \<lparr>s_answers = [answerB, priceAnswer], s_profile = None\<rparr>] ''s'')
       = Inr (computeProfile exampleQuestions [answerB, priceAnswer])"
proof -
  have f1: "find (\<lambda>a. questionId a = ''priority_01'') [answerB, priceAnswer] = Some priceAnswer"
    by (simp add: answerB_def priceAnswer_def)
  have t: "selectsToken (selectedOption priceAnswer) ''price''"
    by (simp add: priceAnswer_def selectsToken_iff)
  have f2: "find (\<lambda>a. questionId a = ''priority_01'') [answerB] = None"
    by (simp add: answerB_def)
  show ?thesis
    using category_weight_presets
            [where as = "[answerB, priceAnswer]" and pa = priceAnswer
               and questions = exampleQuestions and sid = "''s''"
               and ss = "[''s'' \<mapsto> \<lparr>s_answers = [answerB, priceAnswer], s_profile = None\<rparr>]"
               and s = "\<lparr>s_answers = [answerB, priceAnswer], s_profile = None\<rparr>"]
          category_weight_presets
            [where as = "[answerB]" and questions = exampleQuestions]
          f1 t f2
    by simp
qed

section \<open>The cached profile\<close>

text \<open>
  Claim C7. Once \<open>getUserProfile\<close> has returned a profile, the session stores it, and
  the next call returns that stored profile and leaves the map as it is. The second call
  does not compute anything: it returns the same profile whatever question catalog it is
  given.
\<close>

theorem getUserProfile_cached_stable:
  "getUserProfile questions ss sid = (Inr p, ss') \<longrightarrow>
     (\<exists>s. ss' sid = Some s \<and> s_profile s = Some p)
     \<and> getUserProfile questions' ss' sid = (Inr p, ss')"
  by (auto simp: getUserProfile_def Let_def split: option.splits)

theorem getUserProfile_cached_stable_witness:
  "getUserProfile exampleQuestions [''s'' \<mapsto> \<lparr>s_answers = [answerB], s_profile = None\<rparr>] ''s''
     = (Inr (computeProfile exampleQuestions [answerB]),
        [''s'' \<mapsto> \<lparr>s_answers = [answerB],
                  s_profile = Some (computeProfile exampleQuestions [answerB])\<rparr>])
   \<and> getUserProfile []
        [''s'' \<mapsto> \<lparr>s_answers = [answerB],
                  s_profile = Some (computeProfile exampleQuestions [answerB])\<rparr>] ''s''
     = (Inr (computeProfile exampleQuestions [answerB]),
        [''s'' \<mapsto> \<lparr>s_answers = [answerB],
                  s_profile = Some (computeProfile exampleQuestions [answerB])\<rparr>])"
proof -
  let ?p = "computeProfile exampleQuestions [answerB]"
  have h: "getUserProfile exampleQuestions
             [''s'' \<mapsto> \<lparr>s_answers = [answerB], s_profile = None\<rparr>] ''s''
     = (Inr ?p, [''s'' \<mapsto> \<lparr>s_answers = [answerB], s_profile = Some ?p\<rparr>])"
    by (simp add: getUserProfile_def Let_def)
  show ?thesis
    using getUserProfile_cached_stable
            [where questions = exampleQuestions and sid = "''s''" and p = ?p
               and ss = "[''s'' \<mapsto> \<lparr>s_answers = [answerB], s_profile = None\<rparr>]"
               and ss' = "[''s'' \<mapsto> \<lparr>s_answers = [answerB], s_profile = Some ?p\<rparr>]"
               and questions' = "[]"] h
    by simp
qed

text \<open>
  A submission changes the answers of a session and leaves its cached profile in place:
  whatever the outcome of \<open>submitAnswer\<close>, a session that held a cached profile
  still returns it.
\<close>

lemma submitAnswer_preserves_cached_profile:
  assumes "ss sid = Some s" and "s_profile s = Some p"
  shows "fst (getUserProfile questions (snd (submitAnswer questions ss sid qid oid now)) sid)
           = Inr p"
  using assms
  by (auto simp: submitAnswer_def getUserProfile_def Let_def split: option.splits)

text \<open>
  Claim C6, evaluated on the small catalog. A session answers \<open>housing_01\<close> with option
  a, reads its profile, and answers the same question with option b. The session then
  retains only the second answer, yet the stored profile is still the one computed from
  the first, and \<open>getUserProfile\<close> returns it: housing preference 1, where the retained
  answer gives 5.
\<close>

theorem submitAnswer_keeps_cached_profile:
  "runCalls exampleQuestions
      [Submit ''s'' ''housing_01'' ''housing_01_a'' 100, ReadProfile ''s'',
       Submit ''s'' ''housing_01'' ''housing_01_b'' 200]
     = [''s'' \<mapsto> \<lparr>s_answers = [answerB],
                    s_profile = Some (computeProfile exampleQuestions [answerA])\<rparr>]
   \<and> fst (getUserProfile exampleQuestions
        [''s'' \<mapsto> \<lparr>s_answers = [answerB],
                    s_profile = Some (computeProfile exampleQuestions [answerA])\<rparr>] ''s'')
       = Inr (computeProfile exampleQuestions [answerA])
   \<and> housing (preferences (computeProfile exampleQuestions [answerA])) = 1
   \<and> answers (computeProfile exampleQuestions [answerA]) = [answerA]
   \<and> housing (preferences (computeProfile exampleQuestions [answerB])) = 5"
proof -
  have "runCalls exampleQuestions
      [Submit ''s'' ''housing_01'' ''housing_01_a'' 100, ReadProfile ''s'',
       Submit ''s'' ''housing_01'' ''housing_01_b'' 200]
     = [''s'' \<mapsto> \<lparr>s_answers = [answerB],
                    s_profile = Some (computeProfile exampleQuestions [answerA])\<rparr>]"
    by (simp add: runCalls_def example_first_submit getUserProfile_def Let_def
          example_second_submit answerA_def answerB_def)
  moreover have "fst (getUserProfile exampleQuestions
        [''s'' \<mapsto> \<lparr>s_answers = [answerB],
                    s_profile = Some (computeProfile exampleQuestions [answerA])\<rparr>] ''s'')
       = Inr (computeProfile exampleQuestions [answerA])"
    by (simp add: getUserProfile_def)
  moreover have "housing (preferences (computeProfile exampleQuestions [answerA])) = 1"
    by (simp add: answerA_def example_profile_a)
  moreover have "answers (computeProfile exampleQuestions [answerA]) = [answerA]"
    by (simp add: computeProfile_def split_beta)
  moreover have "housing (preferences (computeProfile exampleQuestions [answerB])) = 5"
    by (simp add: answerB_def example_profile_b)
  ultimately show ?thesis by simp
qed

section \<open>Reads of an unknown session\<close>

text \<open>
  Claim C8 as stated fails for \<open>getAnswers\<close>: on a session id the map does not hold,
  it returns the empty list, the same result as for a session without answers.
\<close>

theorem getAnswers_unknown_session_counterexample:
  "newSessions ''non-existent'' = None
   \<and> getAnswers newSessions ''non-existent'' = []
   \<and> getAnswers (newSessions(''non-existent'' \<mapsto> \<lparr>s_answers = [], s_profile = None\<rparr>))
        ''non-existent'' = getAnswers newSessions ''non-existent''"
  by (simp add: newSessions_def getAnswers_def)

text \<open>
  Claim C8, amended. For a session id the map does not hold, \<open>getUserProfile\<close> fails
  with the session-not-found error and leaves the map unchanged, and \<open>getAnswers\<close>
  returns the empty list.
\<close>

theorem unknown_session_reads:
  "ss sid = None \<longrightarrow>
     getUserProfile questions ss sid = (Inl (SessionNotFound sid), ss)
     \<and> getAnswers ss sid = []"
  by (simp add: getUserProfile_def getAnswers_def)

theorem unknown_session_reads_witness:
  "newSessions ''non-existent'' = None
   \<and> getUserProfile exampleQuestions newSessions ''non-existent''
       = (Inl (SessionNotFound ''non-existent''), newSessions)
   \<and> getAnswers newSessions ''non-existent'' = []"
proof -
  have h: "newSessions ''non-existent'' = None" by (simp add: newSessions_def)
  show ?thesis
    using unknown_session_reads
            [where ss = newSessions and sid = "''non-existent''" and questions = exampleQuestions] h
    by simp
qed

section \<open>Compatibility scores\<close>



lemma fold_upd_lookup:
  "fold (\<lambda>x m. m(k x \<mapsto> f x)) xs m0 key
     = (case find (\<lambda>x. k x = key) (rev xs) of Some x \<Rightarrow> Some (f x) | None \<Rightarrow> m0 key)"
  by (induction xs rule: rev_induct) simp_all

lemma calculateScores_lookup:
  "calculateScores stations p sid
     = (case find (\<lambda>st. st_id st = sid) (rev stations) of
          Some st \<Rightarrow> Some (calculateStationScore p st)
        | None \<Rightarrow> None)"
  by (simp add: calculateScores_def fold_upd_lookup)




lemma find_distinct_key:
  "distinct (map k xs) \<Longrightarrow> x \<in> set xs \<Longrightarrow> find (\<lambda>y. k y = k x) xs = Some x"
  by (induction xs) (auto simp: image_iff)

lemma calculateScores_distinct:
  assumes "distinct (map st_id stations)" and "st \<in> set stations"
  shows "calculateScores stations p (st_id st) = Some (calculateStationScore p st)"
proof -
  have "distinct (map st_id (rev stations))" using assms(1) by (simp add: rev_map [symmetric])
  moreover have "st \<in> set (rev stations)" using assms(2) by simp
  ultimately have "find (\<lambda>y. st_id y = st_id st) (rev stations) = Some st"
    by (rule find_distinct_key)
  then show ?thesis by (simp add: calculateScores_lookup)
qed

subsection \<open>The scorer on the small catalog\<close>

lemma example_station_scores:
  "calculateStationScore exampleProfile (uniformStation ''A'' 5 1 5) = 268 / 3"
  "calculateStationScore exampleProfile (uniformStation ''B'' 1 5 2) = 98 / 3"
  "calculateStationScore exampleProfile (uniformStation ''C'' 3 3 3) = 60"
  "calculateStationScore exampleProfile (uniformStation ''D'' 3 3 3) = 60"
  by (simp_all add: calculateStationScore_def baseScore_def weightedTotals_def
        calculateCategoryScore_def calculatePriorityBonus_def exampleProfile_def
        uniformStation_def allNumbers_def Let_def)

lemma example_distinct: "distinct (map st_id exampleStations)"
  by (simp add: exampleStations_def uniformStation_def)



section \<open>Rankings\<close>

subsection \<open>The sorted array\<close>

lemma length_stationScores: "length (stationScores stations p) = length stations"
  by (simp add: stationScores_def Let_def)


lemma stationScores_distinct:
  assumes "distinct (map st_id stations)"
  shows "stationScores stations p
           = sort_key (\<lambda>e. - snd e) (map (\<lambda>st. (st, calculateStationScore p st)) stations)"
proof -
  have "map (\<lambda>st. (st, case calculateScores stations p (st_id st) of
                          Some sc \<Rightarrow> sc | None \<Rightarrow> 0)) stations
          = map (\<lambda>st. (st, calculateStationScore p st)) stations"
    using assms by (simp add: calculateScores_distinct)
  then show ?thesis unfolding stationScores_def Let_def by (rule arg_cong)
qed





subsection \<open>Rounding\<close>



subsection \<open>The two rankings\<close>

lemma length_generateRecommendations:
  "length (generateRecommendations stations p) = min 3 (length stations)"
  by (simp add: generateRecommendations_def Let_def length_stationScores)

lemma length_generateFullRanking:
  "length (generateFullRanking stations p) = length stations"
  by (simp add: generateFullRanking_def Let_def length_stationScores)

lemma generateRecommendations_nth:
  assumes "i < min 3 (length stations)"
  shows "generateRecommendations stations p ! i
           = \<lparr>station = fst (stationScores stations p ! i),
              score = roundScore (snd (stationScores stations p ! i)),
              rank = i + 1,
              explanation = explainRecommendation (fst (stationScores stations p ! i)) p\<rparr>"
  using assms
  by (simp add: generateRecommendations_def Let_def length_stationScores split_beta)

lemma generateFullRanking_nth:
  assumes "i < length stations"
  shows "generateFullRanking stations p ! i
           = \<lparr>station = fst (stationScores stations p ! i),
              score = roundScore (snd (stationScores stations p ! i)),
              rank = i + 1,
              explanation = emptyExplanation\<rparr>"
  using assms
  by (simp add: generateFullRanking_def Let_def length_stationScores split_beta)




lemma generateFullRanking_ranks:
  "map rank (generateFullRanking stations p) = [1 ..< Suc (length stations)]"
proof -
  have "map rank (generateFullRanking stations p) = map Suc [0 ..< length stations]"
    by (rule nth_equalityI)
       (simp_all add: length_generateFullRanking generateFullRanking_nth)
  then show ?thesis by (simp only: map_Suc_upt One_nat_def)
qed



lemma top_is_prefix_of_full:
  "map (\<lambda>r. r\<lparr>explanation := emptyExplanation\<rparr>) (generateRecommendations stations p)
     = take 3 (generateFullRanking stations p)"
  by (rule nth_equalityI)
     (simp_all add: length_generateRecommendations length_generateFullRanking
        generateRecommendations_nth generateFullRanking_nth)

lemma generateFullRanking_explanations:
  assumes "r \<in> set (generateFullRanking stations p)"
  shows "explanation r = emptyExplanation"
proof -
  from assms obtain i where "i < length stations" and "r = generateFullRanking stations p ! i"
    by (auto simp: in_set_conv_nth length_generateFullRanking)
  then show ?thesis by (simp add: generateFullRanking_nth)
qed

subsection \<open>The rankings on the small catalog\<close>

lemma example_stationScores:
  "stationScores exampleStations exampleProfile
     = [(uniformStation ''A'' 5 1 5, 268 / 3), (uniformStation ''C'' 3 3 3, 60),
        (uniformStation ''D'' 3 3 3, 60), (uniformStation ''B'' 1 5 2, 98 / 3)]"
  unfolding stationScores_distinct [OF example_distinct]
  by (simp add: exampleStations_def example_station_scores)

lemma example_rounded:
  "roundScore (268 / 3) = 89.33" "roundScore 60 = 60" "roundScore (98 / 3) = 32.67"
  by (simp_all add: roundScore_def)


lemma example_full:
  "map (\<lambda>r. (st_id (station r), score r, rank r, explanation r))
       (generateFullRanking exampleStations exampleProfile)
     = [(''A'', 89.33, 1, emptyExplanation), (''C'', 60, 2, emptyExplanation),
        (''D'', 60, 3, emptyExplanation), (''B'', 32.67, 4, emptyExplanation)]"
  by (simp add: generateFullRanking_def example_stationScores Let_def
        example_rounded uniformStation_def upt_rec del: upt_Suc)



text \<open>
  Claim C9. The top three entries, with their explanations emptied, are the first three
  entries of the full ranking: at each position the station, the rounded score and the rank
  agree, and the rank is the position counted from 1. Every entry of the full ranking has
  the empty explanation.
\<close>

theorem top_three_agrees_with_full_ranking:
  "map (\<lambda>r. r\<lparr>explanation := emptyExplanation\<rparr>) (generateRecommendations stations p)
     = take 3 (generateFullRanking stations p)
   \<and> length (generateFullRanking stations p) = length stations
   \<and> (\<forall>i < min 3 (length stations).
         station (generateRecommendations stations p ! i)
           = station (generateFullRanking stations p ! i)
         \<and> score (generateRecommendations stations p ! i)
           = score (generateFullRanking stations p ! i)
         \<and> rank (generateRecommendations stations p ! i) = i + 1
         \<and> rank (generateFullRanking stations p ! i) = i + 1)
   \<and> (\<forall>r \<in> set (generateFullRanking stations p). explanation r = emptyExplanation)"
proof (intro conjI allI impI ballI)
  show "map (\<lambda>r. r\<lparr>explanation := emptyExplanation\<rparr>) (generateRecommendations stations p)
     = take 3 (generateFullRanking stations p)"
    by (rule top_is_prefix_of_full)
  show "length (generateFullRanking stations p) = length stations"
    by (rule length_generateFullRanking)
next
  fix i assume i: "i < min 3 (length stations)"
  then have j: "i < length stations" by simp
  show "station (generateRecommendations stations p ! i)
           = station (generateFullRanking stations p ! i)"
    by (simp add: generateRecommendations_nth [OF i] generateFullRanking_nth [OF j])
  show "score (generateRecommendations stations p ! i)
           = score (generateFullRanking stations p ! i)"
    by (simp add: generateRecommendations_nth [OF i] generateFullRanking_nth [OF j])
  show "rank (generateRecommendations stations p ! i) = i + 1"
    by (simp add: generateRecommendations_nth [OF i])
  show "rank (generateFullRanking stations p ! i) = i + 1"
    by (simp add: generateFullRanking_nth [OF j])
next
  fix r assume "r \<in> set (generateFullRanking stations p)"
  then show "explanation r = emptyExplanation"
    by (rule generateFullRanking_explanations)
qed

theorem top_three_agrees_with_full_ranking_witness:
  "(2::nat) < min 3 (length exampleStations)
   \<and> station (generateRecommendations exampleStations exampleProfile ! 2)
       = station (generateFullRanking exampleStations exampleProfile ! 2)
   \<and> score (generateRecommendations exampleStations exampleProfile ! 2)
       = score (generateFullRanking exampleStations exampleProfile ! 2)
   \<and> rank (generateRecommendations exampleStations exampleProfile ! 2) = 3
   \<and> rank (generateFullRanking exampleStations exampleProfile ! 2) = 3
   \<and> length (generateFullRanking exampleStations exampleProfile) = 4
   \<and> map (\<lambda>r. (st_id (station r), score r, rank r, explanation r))
        (generateFullRanking exampleStations exampleProfile)
       = [(''A'', 89.33, 1, emptyExplanation), (''C'', 60, 2, emptyExplanation),
          (''D'', 60, 3, emptyExplanation), (''B'', 32.67, 4, emptyExplanation)]"
proof -
  have l: "length exampleStations = 4" by (simp add: exampleStations_def)
  show ?thesis
    using top_three_agrees_with_full_ranking [of exampleStations exampleProfile] l example_full
    by simp
qed

end
